theory Spec2Isabelle
  imports Main
begin

section \<open>Calendar dates\<close>

text \<open>
  The program computes with values of the standard library's \<^verbatim>\<open>datetime.date\<close>. A date is
  modelled by its proleptic Gregorian ordinal (\<^verbatim>\<open>date.toordinal()\<close>): day 1 is 0001-01-01
  and day 3652059 is 9999-12-31, the largest date the library represents. Comparison of
  dates is comparison of ordinals and \<^verbatim>\<open>(b - a).days\<close> is the difference of ordinals.
\<close>

type_synonym pydate = int

definition MINORDINAL :: int where
  "MINORDINAL = 1"

definition MAXORDINAL :: int where
  "MAXORDINAL = 3652059"

definition valid_date :: "pydate \<Rightarrow> bool" where
  "valid_date d = (MINORDINAL \<le> d \<and> d \<le> MAXORDINAL)"

text \<open>\<^verbatim>\<open>date.weekday()\<close>: Monday is 0 and Sunday is 6.\<close>

definition weekday :: "pydate \<Rightarrow> int" where
  "weekday d = (d + 6) mod 7"

text \<open>
  The calendar arithmetic of the library: leap years, the days before a year and before a
  month, the ordinal of a year-month-day triple, and the constructor \<^verbatim>\<open>date(year, month, day)\<close>,
  which raises \<^verbatim>\<open>ValueError\<close> outside the years 1 to 9999, the months 1 to 12 and the days of
  the month.
\<close>

definition is_leap :: "int \<Rightarrow> bool" where
  "is_leap y = (y mod 4 = 0 \<and> (y mod 100 \<noteq> 0 \<or> y mod 400 = 0))"

definition days_before_year :: "int \<Rightarrow> int" where
  "days_before_year y = (let p = y - 1 in p * 365 + p div 4 - p div 100 + p div 400)"

definition days_in_month :: "int \<Rightarrow> int \<Rightarrow> int" where
  "days_in_month y m =
     (if m = 2 then (if is_leap y then 29 else 28)
      else if m = 4 \<or> m = 6 \<or> m = 9 \<or> m = 11 then 30
      else 31)"

definition days_before_month :: "int \<Rightarrow> int \<Rightarrow> int" where
  "days_before_month y m =
     (if m = 1 then 0 else if m = 2 then 31 else if m = 3 then 59 else if m = 4 then 90
      else if m = 5 then 120 else if m = 6 then 151 else if m = 7 then 181
      else if m = 8 then 212 else if m = 9 then 243 else if m = 10 then 273
      else if m = 11 then 304 else 334)
     + (if m > 2 \<and> is_leap y then 1 else 0)"

definition ymd2ord :: "int \<Rightarrow> int \<Rightarrow> int \<Rightarrow> pydate" where
  "ymd2ord y m d = days_before_year y + days_before_month y m + d"

section \<open>Errors\<close>

text \<open>
  Every validation failure of the source is a \<^verbatim>\<open>ValidationError\<close> told apart by its message;
  the model has one constructor for each message, named after the taxonomy of the
  specification. The two messages of the Month length check share \<open>WrongMonthLength\<close>
  and are told apart by its argument. The remaining constructors are the exceptions that
  the library calls of the source raise and the source does not catch.
\<close>

datatype month_length_reason = NotWholeWeeks | NotFourOrFiveWeeks

datatype error =
    InvalidInterval
  | WrongWeekLength
  | WrongMonthLength month_length_reason
  | OverlappingInterval "string list"
  | MissingParent string
  | NoSuchWeek
  | NonSchoolDay
  | IncompleteRepetition
  | ScheduleCollision
  | PastDateRejected
  | NonInstructionalPeriod
  | NotFound
  | MultipleObjectsReturned
  | OverflowError
  | ValueError
  | TypeError

text \<open>\<^verbatim>\<open>date(year, month, day)\<close>.\<close>

definition date_ctor :: "int \<Rightarrow> int \<Rightarrow> int \<Rightarrow> error + pydate" where
  "date_ctor y m d =
     (if 1 \<le> y \<and> y \<le> 9999 \<and> 1 \<le> m \<and> m \<le> 12 \<and> 1 \<le> d \<and> d \<le> days_in_month y m
      then Inr (ymd2ord y m d)
      else Inl ValueError)"

text \<open>
  \<^verbatim>\<open>date.year\<close>, as the library derives it from the ordinal: cycles of 400, 100, 4 and 1
  years, the last day of a leap cycle belonging to the year before.
\<close>

definition year_of :: "pydate \<Rightarrow> int" where
  "year_of d =
     (let n = d - 1;
          n400 = n div 146097; r400 = n mod 146097;
          n100 = r400 div 36524; r100 = r400 mod 36524;
          n4 = r100 div 1461; r4 = r100 mod 1461;
          n1 = r4 div 365;
          y = n400 * 400 + 1 + n100 * 100 + n4 * 4 + n1
      in if n1 = 4 \<or> n100 = 4 then y - 1 else y)"

text \<open>
  \<^verbatim>\<open>timedelta(days=n)\<close> raises \<^verbatim>\<open>OverflowError\<close> when the magnitude of \<open>n\<close> exceeds
  999999999, and \<^verbatim>\<open>date + timedelta\<close> raises it when the sum leaves the range of dates.
\<close>

definition timedelta :: "int \<Rightarrow> error + int" where
  "timedelta days = (if \<bar>days\<bar> > 999999999 then Inl OverflowError else Inr days)"

definition date_add :: "pydate \<Rightarrow> int \<Rightarrow> error + pydate" where
  "date_add d days =
     (case timedelta days of
        Inl e \<Rightarrow> Inl e
      | Inr n \<Rightarrow> (let ord = d + n
                  in if 0 < ord \<and> ord \<le> MAXORDINAL then Inr ord else Inl OverflowError))"

section \<open>Month and Week intervals\<close>

text \<open>
  A Month and a Week are rows with a primary key and an inclusive interval of dates
  (fields \<^verbatim>\<open>start\<close> and \<^verbatim>\<open>end\<close> of the source; \<open>end\<close> is a keyword here, hence \<open>end_date\<close>).
\<close>

record interval =
  ipk :: nat
  start :: pydate
  end_date :: pydate

text \<open>\<^verbatim>\<open>TrueDiffInterval.get_true_diff\<close>: the inclusive number of days.\<close>

definition get_true_diff :: "interval \<Rightarrow> int" where
  "get_true_diff self = (end_date self - start self) + 1"

text \<open>\<^verbatim>\<open>MonthMixin.validate_len_interval\<close>.\<close>

definition month_validate_len_interval :: "interval \<Rightarrow> error + unit" where
  "month_validate_len_interval self =
     (let true_diff = get_true_diff self;
          count_weeks = true_diff div 7
      in if true_diff mod 7 \<noteq> 0 then Inl (WrongMonthLength NotWholeWeeks)
         else if count_weeks < 4 \<or> count_weeks > 5 then Inl (WrongMonthLength NotFourOrFiveWeeks)
         else Inr ())"

text \<open>\<^verbatim>\<open>WeekMixin.validate_len_interval\<close>.\<close>

definition week_validate_len_interval :: "interval \<Rightarrow> error + unit" where
  "week_validate_len_interval self =
     (let true_diff = get_true_diff self
      in if true_diff \<noteq> 7 then Inl WrongWeekLength else Inr ())"

subsection \<open>MonthMixin\<close>

text \<open>A Year row: its primary key and the integer field \<^verbatim>\<open>year\<close>.\<close>

record year_row =
  ypk :: nat
  year :: int

text \<open>\<^verbatim>\<open>MonthMixin.get_average_date\<close>.\<close>

definition get_average_date :: "interval \<Rightarrow> error + pydate" where
  "get_average_date self = date_add (start self) 15"

text \<open>
  \<^verbatim>\<open>MonthMixin.get_related_obj\<close>. The table of the related model is a list of rows in the
  order of the query; \<^verbatim>\<open>filter(...).first()\<close> is the first row that satisfies the filter.
\<close>

definition month_get_related_obj :: "year_row list \<Rightarrow> interval \<Rightarrow> error + year_row option" where
  "month_get_related_obj years self =
     (case get_average_date self of
        Inl e \<Rightarrow> Inl e
      | Inr average_date \<Rightarrow> Inr (find (\<lambda>y. year y = year_of average_date) years))"

text \<open>
  \<^verbatim>\<open>MonthMixin.validate_related_obj\<close>. The parameter \<open>field\<close> is the title-cased verbose name
  of the related model, which is declared with the models (not part of these sources).
\<close>

definition month_validate_related_obj :: "string \<Rightarrow> year_row list \<Rightarrow> interval \<Rightarrow> error + unit" where
  "month_validate_related_obj field years self =
     (case month_get_related_obj years self of
        Inl e \<Rightarrow> Inl e
      | Inr related_model_obj \<Rightarrow>
          if related_model_obj = None then Inl (MissingParent field) else Inr ())"

subsection \<open>ValidationMonthAndWeekIntervalMixin\<close>

text \<open>\<^verbatim>\<open>validate_incorrect_interval\<close>.\<close>

definition validate_incorrect_interval :: "interval \<Rightarrow> error + unit" where
  "validate_incorrect_interval self =
     (if start self \<ge> end_date self then Inl InvalidInterval else Inr ())"

text \<open>
  \<^verbatim>\<open>validate_exist_interval\<close>. \<open>objects\<close> are the rows of the model of \<open>self\<close>; \<open>names\<close> are the
  verbose names of its fields \<^verbatim>\<open>start\<close> and \<^verbatim>\<open>end\<close>. The error carries the names of the fields
  whose lookup found a row, in the order of the source's comprehension.
\<close>

definition validate_exist_interval :: "string \<times> string \<Rightarrow> interval list \<Rightarrow> interval \<Rightarrow> error + unit" where
  "validate_exist_interval names objects self =
     (let start_obj = find (\<lambda>x. start x < start self \<and> end_date x > start self) objects;
          end_obj = find (\<lambda>x. start x < end_date self \<and> end_date x > end_date self) objects;
          zipped = zip [fst names, snd names] [start_obj, end_obj]
      in if start_obj \<noteq> None \<or> end_obj \<noteq> None
         then Inl (OverlappingInterval (map fst (filter (\<lambda>(field, object). object \<noteq> None) zipped)))
         else Inr ())"

text \<open>\<^verbatim>\<open>validate_interval\<close>: the two checks in the order of the source.\<close>

definition validate_interval :: "string \<times> string \<Rightarrow> interval list \<Rightarrow> interval \<Rightarrow> error + unit" where
  "validate_interval names objects self =
     (case validate_incorrect_interval self of
        Inl e \<Rightarrow> Inl e
      | Inr _ \<Rightarrow> validate_exist_interval names objects self)"

subsection \<open>WeekMixin\<close>

text \<open>\<^verbatim>\<open>WeekMixin.get_related_obj\<close> and \<^verbatim>\<open>WeekMixin.validate_related_obj\<close>.\<close>

definition week_get_related_obj :: "interval list \<Rightarrow> interval \<Rightarrow> interval option" where
  "week_get_related_obj months self =
     find (\<lambda>m. start m \<le> start self \<and> end_date m \<ge> start self) months"

definition week_validate_related_obj :: "string \<Rightarrow> interval list \<Rightarrow> interval \<Rightarrow> error + unit" where
  "week_validate_related_obj field months self =
     (let related_model_obj = week_get_related_obj months self
      in if related_model_obj = None then Inl (MissingParent field) else Inr ())"

section \<open>Schedules\<close>

text \<open>
  A Schedule row. \<open>pk\<close> is \<open>None\<close> for an object that has not been saved; \<open>week\<close> is the
  primary key of the Week the row refers to, \<open>None\<close> when the reference is unset. The two
  repetition fields are optional integers. The Schedule table is a list of rows in the
  order of the query, and the candidate under validation is a value of the same type.
\<close>

record schedule =
  pk :: "nat option"
  date :: pydate
  author :: nat
  week :: "nat option"
  repetition_rate :: "int option"
  repetition_count :: "int option"

text \<open>Truth value of an optional integer: \<^verbatim>\<open>None\<close> and \<^verbatim>\<open>0\<close> are false.\<close>

definition truthy :: "int option \<Rightarrow> bool" where
  "truthy v = (case v of None \<Rightarrow> False | Some n \<Rightarrow> n \<noteq> 0)"

text \<open>\<^verbatim>\<open>ScheduleMixin.get_related_obj\<close>: the first Week whose interval contains the date.\<close>

definition get_related_obj :: "interval list \<Rightarrow> pydate \<Rightarrow> interval option" where
  "get_related_obj weeks d = find (\<lambda>w. start w \<le> d \<and> end_date w \<ge> d) weeks"

text \<open>
  The loop of \<^verbatim>\<open>get_related_week_objects\<close> over \<^verbatim>\<open>range(1, repetition_count + 1)\<close>: it
  appends the Week (or \<^verbatim>\<open>None\<close>) of each repeated date and stops at the first date that the
  library cannot represent.
\<close>

fun repeat_loop ::
  "interval list \<Rightarrow> pydate \<Rightarrow> int \<Rightarrow> int list \<Rightarrow> interval option list \<Rightarrow> error + interval option list" where
  "repeat_loop weeks d rate [] week_objects = Inr week_objects"
| "repeat_loop weeks d rate (repeat # rest) week_objects =
     (case date_add d ((7 * rate) * repeat) of
        Inl e \<Rightarrow> Inl e
      | Inr new_date \<Rightarrow>
          repeat_loop weeks d rate rest (week_objects @ [get_related_obj weeks new_date]))"

text \<open>\<^verbatim>\<open>ScheduleMixin.get_related_week_objects\<close>.\<close>

definition get_related_week_objects :: "interval list \<Rightarrow> schedule \<Rightarrow> error + interval option list" where
  "get_related_week_objects weeks self =
     (case (if truthy (repetition_rate self) \<and> truthy (repetition_count self)
            then (case repetition_rate self of
                    None \<Rightarrow> Inr []
                  | Some rate \<Rightarrow>
                      (case repetition_count self of
                         None \<Rightarrow> Inr []
                       | Some count \<Rightarrow> repeat_loop weeks (date self) rate [1..count] []))
            else Inr []) of
        Inl e \<Rightarrow> Inl e
      | Inr week_objects \<Rightarrow> Inr (week_objects @ [get_related_obj weeks (date self)]))"

text \<open>\<^verbatim>\<open>ScheduleMixin.validate_empty_repetition\<close>, with \<^verbatim>\<open>any\<close> and \<^verbatim>\<open>all\<close> over truth values.\<close>

definition validate_empty_repetition :: "schedule \<Rightarrow> error + unit" where
  "validate_empty_repetition self =
     (let repetition_list = [repetition_rate self, repetition_count self]
      in if list_ex truthy repetition_list \<and> \<not> list_all truthy repetition_list
         then Inl IncompleteRepetition
         else Inr ())"

text \<open>
  \<^verbatim>\<open>schedule != current_schedule\<close>. Two model instances are equal when the primary key of the
  left one is set and equals the primary key of the right one; an instance is never equal
  to \<^verbatim>\<open>None\<close>.
\<close>

definition model_ne :: "schedule \<Rightarrow> schedule option \<Rightarrow> bool" where
  "model_ne a b =
     (case b of
        None \<Rightarrow> True
      | Some c \<Rightarrow> \<not> (pk a \<noteq> None \<and> pk a = pk c))"

text \<open>The inner loop of \<^verbatim>\<open>validate_exist_schedule\<close>, over the schedules of one week.\<close>

fun schedules_loop :: "schedule \<Rightarrow> schedule option \<Rightarrow> schedule list \<Rightarrow> error + unit" where
  "schedules_loop self current_schedule [] = Inr ()"
| "schedules_loop self current_schedule (s # rest) =
     (if weekday (date s) = weekday (date self) \<and> model_ne s current_schedule
      then Inl ScheduleCollision
      else schedules_loop self current_schedule rest)"

text \<open>
  The outer loop, over the week objects. \<^verbatim>\<open>filter(author=..., week=week_obj)\<close> compares the
  reference of a row with the primary key of \<open>week_obj\<close>; for \<^verbatim>\<open>None\<close> it selects the rows
  whose reference is unset.
\<close>

fun weeks_loop ::
  "schedule list \<Rightarrow> schedule \<Rightarrow> schedule option \<Rightarrow> interval option list \<Rightarrow> error + unit" where
  "weeks_loop objects self current_schedule [] = Inr ()"
| "weeks_loop objects self current_schedule (week_obj # rest) =
     (let schedule_objs =
            filter (\<lambda>s. author s = author self \<and> week s = map_option ipk week_obj) objects
      in case schedules_loop self current_schedule schedule_objs of
           Inl e \<Rightarrow> Inl e
         | Inr _ \<Rightarrow> weeks_loop objects self current_schedule rest)"

text \<open>\<^verbatim>\<open>ScheduleMixin.validate_exist_schedule\<close>.\<close>

definition current_schedule_of :: "schedule list \<Rightarrow> schedule \<Rightarrow> schedule option" where
  "current_schedule_of objects self =
     find (\<lambda>s. date s = date self \<and> author s = author self) objects"

definition validate_exist_schedule :: "schedule list \<Rightarrow> interval list \<Rightarrow> schedule \<Rightarrow> error + unit" where
  "validate_exist_schedule objects weeks self =
     (let current_schedule = current_schedule_of objects self
      in case get_related_week_objects weeks self of
           Inl e \<Rightarrow> Inl e
         | Inr week_objects \<Rightarrow> weeks_loop objects self current_schedule week_objects)"

text \<open>\<^verbatim>\<open>ScheduleMixin.validate_exist_weeks\<close> and \<^verbatim>\<open>ScheduleMixin.validate_sunday\<close>.\<close>

definition validate_exist_weeks :: "interval list \<Rightarrow> schedule \<Rightarrow> error + unit" where
  "validate_exist_weeks weeks self =
     (case get_related_week_objects weeks self of
        Inl e \<Rightarrow> Inl e
      | Inr week_objs \<Rightarrow> if None \<in> set week_objs then Inl NoSuchWeek else Inr ())"

definition validate_sunday :: "schedule \<Rightarrow> error + unit" where
  "validate_sunday self = (if weekday (date self) = 6 then Inl NonSchoolDay else Inr ())"

subsection \<open>The words of the specification\<close>

text \<open>
  The target dates as the specification writes them: the date of the candidate, and, when
  both repetition fields are set, \<open>date + 7 * repetition_rate * k\<close> for \<open>k\<close> from 1 to
  \<open>repetition_count\<close>.
\<close>

definition spec_target_dates :: "schedule \<Rightarrow> pydate list" where
  "spec_target_dates self =
     (case repetition_rate self of
        None \<Rightarrow> [date self]
      | Some rate \<Rightarrow>
          (case repetition_count self of
             None \<Rightarrow> [date self]
           | Some count \<Rightarrow> date self # map (\<lambda>k. date self + 7 * rate * k) [1..count]))"

text \<open>
  A collision as the specification writes it: one of the week objects holds a Schedule of
  the same author on the same weekday that is not the candidate itself, the two being
  told apart by their primary keys.
\<close>

definition spec_collides :: "schedule list \<Rightarrow> interval option list \<Rightarrow> schedule \<Rightarrow> bool" where
  "spec_collides objects week_objects self =
     (\<exists>w\<in>set week_objects. \<exists>s\<in>set objects.
        author s = author self \<and> week s = map_option ipk w
        \<and> weekday (date s) = weekday (date self) \<and> pk s \<noteq> pk self)"

subsection \<open>Sample data\<close>

text \<open>
  Two Weeks of January 2024 (Monday 2024-01-01 to Sunday 2024-01-07, and the week after)
  and the last full Week of the calendar of the library (Monday 9999-12-20 to Sunday
  9999-12-26).
\<close>

definition week_1 :: interval where
  "week_1 = \<lparr>ipk = 1, start = 738886, end_date = 738892\<rparr>"

definition week_2 :: interval where
  "week_2 = \<lparr>ipk = 2, start = 738893, end_date = 738899\<rparr>"

definition week_9999 :: interval where
  "week_9999 = \<lparr>ipk = 3, start = 3652048, end_date = 3652054\<rparr>"

text \<open>
  A stored Schedule of author 1 on Monday 2024-01-01, and a new, unsaved Schedule of the
  same author for the same day.
\<close>

definition stored_monday :: schedule where
  "stored_monday = \<lparr>pk = Some 1, date = 738886, author = 1, week = Some 1,
     repetition_rate = None, repetition_count = None\<rparr>"

definition new_monday :: schedule where
  "new_monday = \<lparr>pk = None, date = 738886, author = 1, week = None,
     repetition_rate = None, repetition_count = None\<rparr>"

text \<open>
  A stored Schedule of author 1 on Monday 2024-01-08, and the same record (primary key 1)
  as an edit form submits it: moved to Monday 2024-01-01 and repeated once after one week.
\<close>

definition stored_second_monday :: schedule where
  "stored_second_monday = \<lparr>pk = Some 1, date = 738893, author = 1, week = Some 2,
     repetition_rate = None, repetition_count = None\<rparr>"

definition edited_second_monday :: schedule where
  "edited_second_monday = \<lparr>pk = Some 1, date = 738886, author = 1, week = Some 1,
     repetition_rate = Some 1, repetition_count = Some 1\<rparr>"

text \<open>A Schedule of author 2 on Monday 2024-01-01.\<close>

definition other_author_monday :: schedule where
  "other_author_monday = \<lparr>pk = Some 2, date = 738886, author = 2, week = Some 1,
     repetition_rate = None, repetition_count = None\<rparr>"

text \<open>A new Schedule on Saturday 9999-12-25, repeated once after one week.\<close>

definition new_saturday_9999 :: schedule where
  "new_saturday_9999 = \<lparr>pk = None, date = 3652053, author = 1, week = None,
     repetition_rate = Some 1, repetition_count = Some 1\<rparr>"


text \<open>
  A new Schedule on Monday 2024-01-01, repeated twice at a rate of one week: the example
  of the specification.
\<close>

definition new_monday_repeated :: schedule where
  "new_monday_repeated = \<lparr>pk = None, date = 738886, author = 1, week = None,
     repetition_rate = Some 1, repetition_count = Some 2\<rparr>"

section \<open>Field validators\<close>

text \<open>
  The settings that \<^verbatim>\<open>validators.py\<close> reads: \<^verbatim>\<open>CURRENT_MONTH\<close>, \<^verbatim>\<open>CURRENT_YEAR\<close> and the entries
  of the dictionary \<^verbatim>\<open>VALIDATE_DATES\<close> used by \<^verbatim>\<open>correct_start\<close>. They are configuration, taken
  as a parameter.
\<close>

record settings =
  CURRENT_MONTH :: int
  CURRENT_YEAR :: int
  CURRENT_JULY :: pydate
  CURRENT_AUGUST :: pydate
  NEXT_JULY :: pydate
  NEXT_AUGUST :: pydate

text \<open>\<^verbatim>\<open>correct_start\<close>.\<close>

definition correct_start :: "settings \<Rightarrow> pydate \<Rightarrow> error + pydate" where
  "correct_start cfg d =
     (case date_ctor (CURRENT_YEAR cfg) (CURRENT_MONTH cfg) 1 of
        Inl e \<Rightarrow> Inl e
      | Inr correct_month \<Rightarrow>
          if d < correct_month then Inl PastDateRejected
          else if (CURRENT_JULY cfg < d \<and> d < CURRENT_AUGUST cfg)
                  \<or> (NEXT_JULY cfg < d \<and> d < NEXT_AUGUST cfg)
          then Inl NonInstructionalPeriod
          else Inr d)"

text \<open>
  A sample configuration: the current month is January 2024, the non-instructional
  windows run from 2024-06-30 to 2024-09-01 and from 2025-06-30 to 2025-09-01.
\<close>

definition settings_2024 :: settings where
  "settings_2024 = \<lparr>CURRENT_MONTH = 1, CURRENT_YEAR = 2024, CURRENT_JULY = 739067,
     CURRENT_AUGUST = 739130, NEXT_JULY = 739432, NEXT_AUGUST = 739495\<rparr>"

section \<open>Resolving the Schedule of an update or a delete\<close>

text \<open>
  \<^verbatim>\<open>datetime.strptime(date_str, '%Y-%m-%d').date()\<close>. The library turns the format into the
  regular expression \<^verbatim>\<open>(\d\d\d\d)-(1[0-2]|0[1-9]|[1-9])-(3[0-1]|[1-2]\d|0[1-9]|[1-9]| [1-9])\<close>,
  matches it at the start of the string, raises \<^verbatim>\<open>ValueError\<close> when it does not match or
  when text remains after the match, and builds the date from the three numbers, which
  raises \<^verbatim>\<open>ValueError\<close> for a day that the month does not have and for the year 0. A
  character is a code point below 256, among which the digits are \<^verbatim>\<open>0\<close> to \<^verbatim>\<open>9\<close>. An
  alternative of the month that matches is never given up for a later one: after it the
  expression needs \<^verbatim>\<open>-\<close>, and where \<^verbatim>\<open>1[0-2]\<close> matched, the shorter \<^verbatim>\<open>[1-9]\<close> is followed by a
  digit.
\<close>

definition is_digit :: "char \<Rightarrow> bool" where
  "is_digit c = (48 \<le> (of_char c :: nat) \<and> (of_char c :: nat) \<le> 57)"

definition digit :: "char \<Rightarrow> int" where
  "digit c = int (of_char c) - 48"

definition is_nonzero_digit :: "char \<Rightarrow> bool" where
  "is_nonzero_digit c = (is_digit c \<and> c \<noteq> CHR ''0'')"

fun match_m :: "string \<Rightarrow> (int \<times> string) option" where
  "match_m (a # b # rest) =
     (if a = CHR ''1'' \<and> (b = CHR ''0'' \<or> b = CHR ''1'' \<or> b = CHR ''2'')
        then Some (10 + digit b, rest)
      else if a = CHR ''0'' \<and> is_nonzero_digit b then Some (digit b, rest)
      else if is_nonzero_digit a then Some (digit a, b # rest)
      else None)"
| "match_m [a] = (if is_nonzero_digit a then Some (digit a, []) else None)"
| "match_m [] = None"

fun match_d :: "string \<Rightarrow> (int \<times> string) option" where
  "match_d (a # b # rest) =
     (if a = CHR ''3'' \<and> (b = CHR ''0'' \<or> b = CHR ''1'') then Some (30 + digit b, rest)
      else if (a = CHR ''1'' \<or> a = CHR ''2'') \<and> is_digit b
        then Some (10 * digit a + digit b, rest)
      else if a = CHR ''0'' \<and> is_nonzero_digit b then Some (digit b, rest)
      else if is_nonzero_digit a then Some (digit a, b # rest)
      else if a = CHR '' '' \<and> is_nonzero_digit b then Some (digit b, rest)
      else None)"
| "match_d [a] = (if is_nonzero_digit a then Some (digit a, []) else None)"
| "match_d [] = None"

definition strptime_ymd :: "string \<Rightarrow> error + pydate" where
  "strptime_ymd data_string =
     (case data_string of
        y1 # y2 # y3 # y4 # sep1 # rest1 \<Rightarrow>
          if is_digit y1 \<and> is_digit y2 \<and> is_digit y3 \<and> is_digit y4 \<and> sep1 = CHR ''-''
          then (case match_m rest1 of
                  None \<Rightarrow> Inl ValueError
                | Some (m, rest2) \<Rightarrow>
                    (case rest2 of
                       [] \<Rightarrow> Inl ValueError
                     | sep2 # rest3 \<Rightarrow>
                         if sep2 = CHR ''-''
                         then (case match_d rest3 of
                                 None \<Rightarrow> Inl ValueError
                               | Some (d, rest4) \<Rightarrow>
                                   if rest4 \<noteq> [] then Inl ValueError
                                   else date_ctor
                                          (1000 * digit y1 + 100 * digit y2 + 10 * digit y3 + digit y4)
                                          m d)
                         else Inl ValueError))
          else Inl ValueError
      | _ \<Rightarrow> Inl ValueError)"

text \<open>
  \<^verbatim>\<open>get_object_or_404\<close> on the rows that satisfy the lookup: none is \<^verbatim>\<open>Http404\<close> (\<open>NotFound\<close>),
  one is returned, and more than one raise \<^verbatim>\<open>MultipleObjectsReturned\<close>.
\<close>

definition get_object_or_404 :: "schedule list \<Rightarrow> error + schedule" where
  "get_object_or_404 found =
     (case found of
        [] \<Rightarrow> Inl NotFound
      | [obj] \<Rightarrow> Inr obj
      | _ \<Rightarrow> Inl MultipleObjectsReturned)"

text \<open>
  \<^verbatim>\<open>ScheduleChangeMixin.get_object\<close>. \<open>user\<close> is the requesting user stored by \<^verbatim>\<open>dispatch\<close>,
  \<open>date_str\<close> the value of \<^verbatim>\<open>self.kwargs.get('date')\<close>, which is \<^verbatim>\<open>None\<close> when the URL has no
  such segment; \<^verbatim>\<open>strptime\<close> raises \<^verbatim>\<open>TypeError\<close> for it.
\<close>

definition get_object :: "schedule list \<Rightarrow> nat \<Rightarrow> string option \<Rightarrow> error + schedule" where
  "get_object objects user date_str =
     (case date_str of
        None \<Rightarrow> Inl TypeError
      | Some data_string \<Rightarrow>
          (case strptime_ymd data_string of
             Inl e \<Rightarrow> Inl e
           | Inr d \<Rightarrow> get_object_or_404 (filter (\<lambda>s. date s = d \<and> author s = user) objects)))"

text \<open>
  The canonical form \<^verbatim>\<open>YYYY-MM-DD\<close> of a year, a month and a day, in the words of the
  specification: four, two and two decimal digits, padded with zeros.
\<close>

definition digit_char :: "int \<Rightarrow> char" where
  "digit_char n = ''0123456789'' ! nat n"

definition format_ymd :: "int \<Rightarrow> int \<Rightarrow> int \<Rightarrow> string" where
  "format_ymd y m d =
     [digit_char (y div 1000), digit_char (y div 100 mod 10), digit_char (y div 10 mod 10),
      digit_char (y mod 10), CHR ''-'',
      digit_char (m div 10), digit_char (m mod 10), CHR ''-'',
      digit_char (d div 10), digit_char (d mod 10)]"

section \<open>Length of a Month\<close>

lemma month_len_ok_iff:
  "month_validate_len_interval m = Inr () \<longleftrightarrow>
     (end_date m - start m + 1 = 28 \<or> end_date m - start m + 1 = 35)"
  unfolding month_validate_len_interval_def get_true_diff_def Let_def
  by (simp, presburger)

lemma month_len_error:
  "month_validate_len_interval m \<noteq> Inr () \<Longrightarrow>
     \<exists>r. month_validate_len_interval m = Inl (WrongMonthLength r)"
  unfolding month_validate_len_interval_def Let_def
  by (simp split: if_splits)

text \<open>
  Claim C8. The length validation of a Month succeeds exactly when the inclusive day count
  \<open>(end - start).days + 1\<close> is divisible by 7 with quotient 4 or 5, that is when it is 28 or
  35; every other length is rejected with \<open>WrongMonthLength\<close>, and a Month of 30 days
  (2024-01-01 to 2024-01-30) is among them.
\<close>

theorem month_length_28_or_35:
  "(month_validate_len_interval m = Inr () \<longleftrightarrow>
      (get_true_diff m mod 7 = 0 \<and> (get_true_diff m div 7 = 4 \<or> get_true_diff m div 7 = 5)))
   \<and> (month_validate_len_interval m = Inr () \<longleftrightarrow>
      (end_date m - start m + 1 = 28 \<or> end_date m - start m + 1 = 35))
   \<and> (month_validate_len_interval m = Inr () \<or>
      (\<exists>r. month_validate_len_interval m = Inl (WrongMonthLength r)))
   \<and> month_validate_len_interval \<lparr>ipk = 1, start = 738886, end_date = 738915\<rparr>
        = Inl (WrongMonthLength NotWholeWeeks)"
proof -
  have a: "month_validate_len_interval m = Inr () \<longleftrightarrow>
      (get_true_diff m mod 7 = 0 \<and> (get_true_diff m div 7 = 4 \<or> get_true_diff m div 7 = 5))"
    unfolding month_validate_len_interval_def Let_def
    by (simp, presburger)
  have b: "month_validate_len_interval m = Inr () \<or>
      (\<exists>r. month_validate_len_interval m = Inl (WrongMonthLength r))"
    using month_len_error by blast
  have c: "month_validate_len_interval \<lparr>ipk = 1, start = 738886, end_date = 738915\<rparr>
        = Inl (WrongMonthLength NotWholeWeeks)"
    by (simp add: month_validate_len_interval_def get_true_diff_def)
  from a b c month_len_ok_iff show ?thesis by blast
qed

section \<open>Repetition fields\<close>

lemma truthy_iff: "truthy v \<longleftrightarrow> (\<exists>n. v = Some n \<and> n \<noteq> 0)"
  by (cases v) (simp_all add: truthy_def)

lemma week_objects_without_repetition:
  "\<not> (truthy (repetition_rate self) \<and> truthy (repetition_count self)) \<Longrightarrow>
     get_related_week_objects weeks self = Inr [get_related_obj weeks (date self)]"
  by (auto simp add: get_related_week_objects_def)

text \<open>
  Claim C5, as amended. The completeness check fails with \<open>IncompleteRepetition\<close> if and
  only if exactly one of \<open>repetition_rate\<close> and \<open>repetition_count\<close> holds a value other than
  zero, and passes otherwise: the check reads the truth value of each field, so a field
  holding 0 counts as a field left empty.
\<close>

theorem incomplete_repetition_iff_one_nonzero:
  "(validate_empty_repetition self = Inl IncompleteRepetition \<longleftrightarrow>
      ((\<exists>n. repetition_rate self = Some n \<and> n \<noteq> 0)
         \<noteq> (\<exists>n. repetition_count self = Some n \<and> n \<noteq> 0)))
   \<and> (validate_empty_repetition self = Inr () \<longleftrightarrow>
      ((\<exists>n. repetition_rate self = Some n \<and> n \<noteq> 0)
         = (\<exists>n. repetition_count self = Some n \<and> n \<noteq> 0)))"
  unfolding validate_empty_repetition_def Let_def
  by (simp add: truthy_iff) blast

theorem incomplete_repetition_witness:
  "validate_empty_repetition \<lparr>pk = None, date = 738886, author = 1, week = None,
        repetition_rate = Some 2, repetition_count = None\<rparr> = Inl IncompleteRepetition"
  using incomplete_repetition_iff_one_nonzero [of "\<lparr>pk = None, date = 738886, author = 1,
        week = None, repetition_rate = Some 2, repetition_count = None\<rparr>"]
  by simp

text \<open>
  The claim as written fails on the code: with \<open>repetition_rate = 0\<close> and no
  \<open>repetition_count\<close> exactly one field is set and the check passes, and with
  \<open>repetition_rate = 2\<close> and \<open>repetition_count = 0\<close> both fields are set and the check fails.
\<close>

theorem incomplete_repetition_set_counterexample:
  "repetition_rate \<lparr>pk = None, date = 738886, author = 1, week = None,
        repetition_rate = Some 0, repetition_count = None\<rparr> \<noteq> None
   \<and> repetition_count \<lparr>pk = None, date = 738886, author = 1, week = None,
        repetition_rate = Some 0, repetition_count = None\<rparr> = None
   \<and> validate_empty_repetition \<lparr>pk = None, date = 738886, author = 1, week = None,
        repetition_rate = Some 0, repetition_count = None\<rparr> = Inr ()
   \<and> validate_empty_repetition \<lparr>pk = None, date = 738886, author = 1, week = None,
        repetition_rate = Some 2, repetition_count = Some 0\<rparr> = Inl IncompleteRepetition"
  by (simp add: validate_empty_repetition_def truthy_def)

lemma schedules_loop_reads_date:
  "date a = date b \<Longrightarrow> schedules_loop a cur xs = schedules_loop b cur xs"
  by (induction xs) simp_all

lemma weeks_loop_reads_date_author:
  "date a = date b \<Longrightarrow> author a = author b \<Longrightarrow>
     weeks_loop objects a cur ws = weeks_loop objects b cur ws"
proof (induction ws)
  case Nil
  show ?case by simp
next
  case (Cons w ws)
  then show ?case
    using schedules_loop_reads_date [of a b cur]
    by (simp add: Let_def split: sum.splits)
qed

lemma validate_exist_schedule_reads:
  assumes "date a = date b" and "author a = author b"
    and "get_related_week_objects weeks a = get_related_week_objects weeks b"
  shows "validate_exist_schedule objects weeks a = validate_exist_schedule objects weeks b"
  using assms weeks_loop_reads_date_author [OF assms(1,2)]
  by (simp add: validate_exist_schedule_def current_schedule_of_def Let_def split: sum.splits)

text \<open>
  Claim C10. A repetition field equal to 0 is treated as an absent one throughout the
  validation: with both fields 0 the completeness check passes and the week resolution
  returns the Week of the base date alone, and each of the checks that read the repetition
  fields gives the same result for a field set to 0 as for the field set to \<^verbatim>\<open>None\<close>.
\<close>

theorem zero_repetition_is_absent:
  "validate_empty_repetition (self\<lparr>repetition_rate := Some 0, repetition_count := Some 0\<rparr>) = Inr ()
   \<and> get_related_week_objects weeks (self\<lparr>repetition_rate := Some 0, repetition_count := Some 0\<rparr>)
       = Inr [get_related_obj weeks (date self)]
   \<and> validate_empty_repetition (self\<lparr>repetition_rate := Some 0\<rparr>)
       = validate_empty_repetition (self\<lparr>repetition_rate := None\<rparr>)
   \<and> validate_empty_repetition (self\<lparr>repetition_count := Some 0\<rparr>)
       = validate_empty_repetition (self\<lparr>repetition_count := None\<rparr>)
   \<and> get_related_week_objects weeks (self\<lparr>repetition_rate := Some 0\<rparr>)
       = get_related_week_objects weeks (self\<lparr>repetition_rate := None\<rparr>)
   \<and> get_related_week_objects weeks (self\<lparr>repetition_count := Some 0\<rparr>)
       = get_related_week_objects weeks (self\<lparr>repetition_count := None\<rparr>)
   \<and> get_related_week_objects weeks (self\<lparr>repetition_rate := Some 0\<rparr>)
       = Inr [get_related_obj weeks (date self)]
   \<and> get_related_week_objects weeks (self\<lparr>repetition_count := Some 0\<rparr>)
       = Inr [get_related_obj weeks (date self)]
   \<and> validate_exist_weeks weeks (self\<lparr>repetition_rate := Some 0\<rparr>)
       = validate_exist_weeks weeks (self\<lparr>repetition_rate := None\<rparr>)
   \<and> validate_exist_weeks weeks (self\<lparr>repetition_count := Some 0\<rparr>)
       = validate_exist_weeks weeks (self\<lparr>repetition_count := None\<rparr>)
   \<and> validate_exist_schedule objects weeks (self\<lparr>repetition_rate := Some 0\<rparr>)
       = validate_exist_schedule objects weeks (self\<lparr>repetition_rate := None\<rparr>)
   \<and> validate_exist_schedule objects weeks (self\<lparr>repetition_count := Some 0\<rparr>)
       = validate_exist_schedule objects weeks (self\<lparr>repetition_count := None\<rparr>)"
proof -
  have g: "\<And>a. \<not> (truthy (repetition_rate a) \<and> truthy (repetition_count a)) \<Longrightarrow>
      get_related_week_objects weeks a = Inr [get_related_obj weeks (date a)]"
    by (rule week_objects_without_repetition)
  have r: "get_related_week_objects weeks (self\<lparr>repetition_rate := Some 0\<rparr>)
       = get_related_week_objects weeks (self\<lparr>repetition_rate := None\<rparr>)"
    by (simp add: g truthy_def)
  have c: "get_related_week_objects weeks (self\<lparr>repetition_count := Some 0\<rparr>)
       = get_related_week_objects weeks (self\<lparr>repetition_count := None\<rparr>)"
    by (simp add: g truthy_def)
  have sr: "validate_exist_schedule objects weeks (self\<lparr>repetition_rate := Some 0\<rparr>)
       = validate_exist_schedule objects weeks (self\<lparr>repetition_rate := None\<rparr>)"
    by (rule validate_exist_schedule_reads) (simp_all add: r)
  have sc: "validate_exist_schedule objects weeks (self\<lparr>repetition_count := Some 0\<rparr>)
       = validate_exist_schedule objects weeks (self\<lparr>repetition_count := None\<rparr>)"
    by (rule validate_exist_schedule_reads) (simp_all add: c)
  show ?thesis
    using r c sr sc
    by (simp add: validate_empty_repetition_def g truthy_def validate_exist_weeks_def)
qed

theorem zero_repetition_is_absent_witness:
  "validate_empty_repetition \<lparr>pk = None, date = 738886, author = 1, week = None,
        repetition_rate = Some 0, repetition_count = Some 0\<rparr> = Inr ()
   \<and> get_related_week_objects [\<lparr>ipk = 1, start = 738886, end_date = 738892\<rparr>]
        \<lparr>pk = None, date = 738886, author = 1, week = None,
         repetition_rate = Some 0, repetition_count = Some 0\<rparr>
       = Inr [Some \<lparr>ipk = 1, start = 738886, end_date = 738892\<rparr>]"
  using zero_repetition_is_absent [of "\<lparr>pk = None, date = 738886, author = 1, week = None,
        repetition_rate = None, repetition_count = None\<rparr>"
        "[\<lparr>ipk = 1, start = 738886, end_date = 738892\<rparr>]" "[]"]
  by (simp add: get_related_obj_def)

section \<open>The start-date validator\<close>

lemma first_of_month_valid:
  "1 \<le> y \<Longrightarrow> y \<le> 9999 \<Longrightarrow> 1 \<le> m \<Longrightarrow> m \<le> 12 \<Longrightarrow> date_ctor y m 1 = Inr (ymd2ord y m 1)"
  by (simp add: date_ctor_def days_in_month_def)

text \<open>
  Claim C9. With a configured current year between 1 and 9999 and a current month
  between 1 and 12, \<^verbatim>\<open>correct_start\<close> fails with \<open>PastDateRejected\<close> for every date before the
  first day of that month (this comparison comes first); for a later date it fails with
  the error of the non-instructional period when the date lies strictly between
  \<^verbatim>\<open>CURRENT_JULY\<close> and \<^verbatim>\<open>CURRENT_AUGUST\<close> or strictly between \<^verbatim>\<open>NEXT_JULY\<close> and \<^verbatim>\<open>NEXT_AUGUST\<close>; and it
  returns every other date unchanged.
\<close>

theorem correct_start_cases:
  assumes "1 \<le> CURRENT_YEAR cfg" and "CURRENT_YEAR cfg \<le> 9999"
    and "1 \<le> CURRENT_MONTH cfg" and "CURRENT_MONTH cfg \<le> 12"
  shows "(d < ymd2ord (CURRENT_YEAR cfg) (CURRENT_MONTH cfg) 1 \<longrightarrow>
            correct_start cfg d = Inl PastDateRejected)
      \<and> (ymd2ord (CURRENT_YEAR cfg) (CURRENT_MONTH cfg) 1 \<le> d
            \<and> ((CURRENT_JULY cfg < d \<and> d < CURRENT_AUGUST cfg)
                \<or> (NEXT_JULY cfg < d \<and> d < NEXT_AUGUST cfg)) \<longrightarrow>
            correct_start cfg d = Inl NonInstructionalPeriod)
      \<and> (ymd2ord (CURRENT_YEAR cfg) (CURRENT_MONTH cfg) 1 \<le> d
            \<and> \<not> (CURRENT_JULY cfg < d \<and> d < CURRENT_AUGUST cfg)
            \<and> \<not> (NEXT_JULY cfg < d \<and> d < NEXT_AUGUST cfg) \<longrightarrow>
            correct_start cfg d = Inr d)"
  using first_of_month_valid [OF assms]
  by (auto simp add: correct_start_def)

text \<open>
  The witness: the current month is January 2024, the windows are 2024-06-30 to 2024-09-01
  and 2025-06-30 to 2025-09-01. The day 2023-12-31 is in the past, 2024-08-02 is inside
  the first window, its bound 2024-06-30 and the day 2024-01-01 are accepted.
\<close>

theorem correct_start_cases_witness:
  "correct_start settings_2024 738885 = Inl PastDateRejected
   \<and> correct_start settings_2024 739100 = Inl NonInstructionalPeriod
   \<and> correct_start settings_2024 739067 = Inr 739067
   \<and> correct_start settings_2024 738886 = Inr 738886"
proof -
  have y: "1 \<le> CURRENT_YEAR settings_2024" "CURRENT_YEAR settings_2024 \<le> 9999"
    "1 \<le> CURRENT_MONTH settings_2024" "CURRENT_MONTH settings_2024 \<le> 12"
    by (simp_all add: settings_2024_def)
  have o: "ymd2ord (CURRENT_YEAR settings_2024) (CURRENT_MONTH settings_2024) 1 = 738886"
    by (simp add: settings_2024_def ymd2ord_def days_before_year_def days_before_month_def)
  show ?thesis
    using correct_start_cases [OF y, of 738885] correct_start_cases [OF y, of 739100]
      correct_start_cases [OF y, of 739067] correct_start_cases [OF y, of 738886]
    by (simp add: o) (simp add: settings_2024_def)
qed

section \<open>Overlap of sibling intervals\<close>

lemma find_eq_None_Bex: "(find P xs = None) = (\<not> (\<exists>x\<in>set xs. P x))"
  by (auto simp add: find_None_iff)

text \<open>
  Claim C3, as amended. \<^verbatim>\<open>validate_exist_interval\<close> fails with \<open>OverlappingInterval\<close> exactly
  when the start or the end of the new Month (or Week) lies strictly inside the interval
  of an existing sibling, strictly after its start and strictly before its end, and the
  error names exactly the boundaries that do; in every other case the check passes.
\<close>

theorem exist_interval_strict:
  "validate_exist_interval (sn, en) objects self =
     (if (\<exists>x\<in>set objects. start x < start self \<and> start self < end_date x)
         \<or> (\<exists>x\<in>set objects. start x < end_date self \<and> end_date self < end_date x)
      then Inl (OverlappingInterval
             ((if (\<exists>x\<in>set objects. start x < start self \<and> start self < end_date x)
               then [sn] else [])
              @ (if (\<exists>x\<in>set objects. start x < end_date self \<and> end_date self < end_date x)
                 then [en] else [])))
      else Inr ())"
  unfolding validate_exist_interval_def Let_def
  by (simp add: find_eq_None_Bex del: not_None_eq) blast

text \<open>
  The witness is the example of the specification: beside a Month from 2024-01-01 to
  2024-01-31, a Month from 2024-01-15 to 2024-02-15 is rejected, and the error names its
  start.
\<close>

theorem exist_interval_strict_witness:
  "validate_exist_interval (''start'', ''end'')
      [\<lparr>ipk = 1, start = 738886, end_date = 738916\<rparr>]
      \<lparr>ipk = 2, start = 738900, end_date = 738931\<rparr> = Inl (OverlappingInterval [''start''])"
  using exist_interval_strict [of "''start''" "''end''"
      "[\<lparr>ipk = 1, start = 738886, end_date = 738916\<rparr>]"
      "\<lparr>ipk = 2, start = 738900, end_date = 738931\<rparr>"]
  by simp

text \<open>
  The claim as written fails on the code. A Month of 28 days passes the interval checks
  and the length check although a sibling has the very same interval, and so does a Week
  of 7 days whose first day is the last day of an existing Week: in both cases the
  intervals overlap and no boundary lies strictly inside the other interval.
\<close>

theorem overlapping_siblings_counterexample:
  "validate_interval (''start'', ''end'') [\<lparr>ipk = 1, start = 738886, end_date = 738913\<rparr>]
      \<lparr>ipk = 2, start = 738886, end_date = 738913\<rparr> = Inr ()
   \<and> month_validate_len_interval \<lparr>ipk = 2, start = 738886, end_date = 738913\<rparr> = Inr ()
   \<and> validate_interval (''start'', ''end'') [\<lparr>ipk = 1, start = 738886, end_date = 738892\<rparr>]
      \<lparr>ipk = 2, start = 738892, end_date = 738898\<rparr> = Inr ()
   \<and> week_validate_len_interval \<lparr>ipk = 2, start = 738892, end_date = 738898\<rparr> = Inr ()"
  by (simp add: validate_interval_def validate_incorrect_interval_def validate_exist_interval_def
      month_validate_len_interval_def week_validate_len_interval_def get_true_diff_def)

section \<open>The parent of a Month and of a Week\<close>

lemma date_add_valid: "valid_date (d + n) \<Longrightarrow> \<bar>n\<bar> \<le> 999999999 \<Longrightarrow> date_add d n = Inr (d + n)"
  by (simp add: date_add_def timedelta_def valid_date_def MINORDINAL_def Let_def)

text \<open>
  The midpoint of a Month is a date of the library whenever the Month has passed the
  length check, which the specification places before the lookup of the parent: the
  midpoint then lies between the start and the end of the Month.
\<close>

lemma midpoint_after_length_check:
  "month_validate_len_interval m = Inr () \<Longrightarrow> valid_date (start m) \<Longrightarrow> valid_date (end_date m)
     \<Longrightarrow> valid_date (start m + 15)"
  unfolding month_validate_len_interval_def get_true_diff_def Let_def valid_date_def MINORDINAL_def
  by (simp split: if_splits) linarith

text \<open>
  Claim C7. For a Month whose midpoint \<open>start + 15\<close> days is a date, the resolver returns
  the first Year whose \<open>year\<close> is the calendar year of the midpoint, and the validation
  fails with \<open>MissingParent\<close>, carrying the name of the Year model, exactly when no such
  Year exists. For a Week the resolver returns a Month whose interval contains the start
  of the Week (\<open>start \<le> week.start \<le> end\<close>), and the validation fails with \<open>MissingParent\<close>,
  carrying the name of the Month model, exactly when no such Month exists.
\<close>

theorem parent_resolution:
  assumes "valid_date (start m + 15)"
  shows "month_get_related_obj years m = Inr (find (\<lambda>y. year y = year_of (start m + 15)) years)
    \<and> (\<forall>y. month_get_related_obj years m = Inr (Some y) \<longrightarrow>
          y \<in> set years \<and> year y = year_of (start m + 15))
    \<and> (month_validate_related_obj year_name years m = Inl (MissingParent year_name) \<longleftrightarrow>
          \<not> (\<exists>y\<in>set years. year y = year_of (start m + 15)))
    \<and> (month_validate_related_obj year_name years m = Inr () \<longleftrightarrow>
          (\<exists>y\<in>set years. year y = year_of (start m + 15)))
    \<and> (\<forall>p. week_get_related_obj months w = Some p \<longrightarrow>
          p \<in> set months \<and> start p \<le> start w \<and> start w \<le> end_date p)
    \<and> (week_get_related_obj months w = None \<longleftrightarrow>
          \<not> (\<exists>p\<in>set months. start p \<le> start w \<and> start w \<le> end_date p))
    \<and> (week_validate_related_obj month_name months w = Inl (MissingParent month_name) \<longleftrightarrow>
          \<not> (\<exists>p\<in>set months. start p \<le> start w \<and> start w \<le> end_date p))
    \<and> (week_validate_related_obj month_name months w = Inr () \<longleftrightarrow>
          (\<exists>p\<in>set months. start p \<le> start w \<and> start w \<le> end_date p))"
proof -
  have avg: "get_average_date m = Inr (start m + 15)"
    using assms by (simp add: get_average_date_def date_add_valid)
  have g: "month_get_related_obj years m = Inr (find (\<lambda>y. year y = year_of (start m + 15)) years)"
    by (simp add: month_get_related_obj_def avg)
  have s: "\<forall>y. month_get_related_obj years m = Inr (Some y) \<longrightarrow>
          y \<in> set years \<and> year y = year_of (start m + 15)"
    by (auto simp add: g find_Some_iff)
  have v1: "month_validate_related_obj year_name years m = Inl (MissingParent year_name) \<longleftrightarrow>
          \<not> (\<exists>y\<in>set years. year y = year_of (start m + 15))"
    by (simp add: month_validate_related_obj_def g find_eq_None_Bex)
  have v2: "month_validate_related_obj year_name years m = Inr () \<longleftrightarrow>
          (\<exists>y\<in>set years. year y = year_of (start m + 15))"
    by (simp add: month_validate_related_obj_def g find_eq_None_Bex)
  have w1: "\<forall>p. week_get_related_obj months w = Some p \<longrightarrow>
          p \<in> set months \<and> start p \<le> start w \<and> start w \<le> end_date p"
    by (auto simp add: week_get_related_obj_def find_Some_iff)
  have w2: "week_get_related_obj months w = None \<longleftrightarrow>
          \<not> (\<exists>p\<in>set months. start p \<le> start w \<and> start w \<le> end_date p)"
    by (simp add: week_get_related_obj_def find_eq_None_Bex)
  have w3: "week_validate_related_obj month_name months w = Inl (MissingParent month_name) \<longleftrightarrow>
          \<not> (\<exists>p\<in>set months. start p \<le> start w \<and> start w \<le> end_date p)"
    by (simp add: week_validate_related_obj_def w2 Let_def)
  have w4: "week_validate_related_obj month_name months w = Inr () \<longleftrightarrow>
          (\<exists>p\<in>set months. start p \<le> start w \<and> start w \<le> end_date p)"
    by (simp add: week_validate_related_obj_def w2 Let_def)
  from g s v1 v2 w1 w2 w3 w4 show ?thesis by (intro conjI)
qed

text \<open>
  The witness: a Month that starts on 2024-01-01 has its midpoint on 2024-01-16. With the
  Years 2023 and 2024 in the table the Year 2024 is found, with the Year 2023 alone the
  validation fails; a Week that starts on 2024-01-08 finds that Month.
\<close>

theorem parent_resolution_witness:
  "month_get_related_obj [\<lparr>ypk = 1, year = 2023\<rparr>, \<lparr>ypk = 2, year = 2024\<rparr>]
      \<lparr>ipk = 1, start = 738886, end_date = 738913\<rparr> = Inr (Some \<lparr>ypk = 2, year = 2024\<rparr>)
   \<and> month_validate_related_obj ''Year'' [\<lparr>ypk = 1, year = 2023\<rparr>]
      \<lparr>ipk = 1, start = 738886, end_date = 738913\<rparr> = Inl (MissingParent ''Year'')
   \<and> week_validate_related_obj ''Month'' [\<lparr>ipk = 1, start = 738886, end_date = 738913\<rparr>]
      \<lparr>ipk = 7, start = 738893, end_date = 738899\<rparr> = Inr ()"
proof -
  have v: "valid_date (start \<lparr>ipk = 1, start = 738886, end_date = 738913\<rparr> + 15)"
    by (simp add: valid_date_def MINORDINAL_def MAXORDINAL_def)
  have y: "year_of 738901 = 2024"
    by (simp add: year_of_def)
  show ?thesis
    using parent_resolution [OF v, of "[\<lparr>ypk = 1, year = 2023\<rparr>, \<lparr>ypk = 2, year = 2024\<rparr>]"
        "''Year''" "[\<lparr>ipk = 1, start = 738886, end_date = 738913\<rparr>]"
        "\<lparr>ipk = 7, start = 738893, end_date = 738899\<rparr>" "''Month''"]
      parent_resolution [OF v, of "[\<lparr>ypk = 1, year = 2023\<rparr>]"
        "''Year''" "[\<lparr>ipk = 1, start = 738886, end_date = 738913\<rparr>]"
        "\<lparr>ipk = 7, start = 738893, end_date = 738899\<rparr>" "''Month''"]
    by (simp add: y)
qed

section \<open>The target weeks of a Schedule\<close>

lemma date_add_between_dates:
  "valid_date d \<Longrightarrow> valid_date (d + n) \<Longrightarrow> date_add d n = Inr (d + n)"
  by (simp add: date_add_def timedelta_def valid_date_def MINORDINAL_def MAXORDINAL_def Let_def)
    linarith

lemma repeat_loop_valid:
  "valid_date d \<Longrightarrow> \<forall>k\<in>set ks. valid_date (d + 7 * rate * k) \<Longrightarrow>
     repeat_loop weeks d rate ks acc
       = Inr (acc @ map (\<lambda>k. get_related_obj weeks (d + 7 * rate * k)) ks)"
proof (induction ks arbitrary: acc)
  case Nil
  show ?case by simp
next
  case (Cons k ks)
  then show ?case by (simp add: date_add_between_dates)
qed

lemma week_objects_with_repetition:
  assumes "repetition_rate self = Some rate" and "repetition_count self = Some count"
    and "rate \<noteq> 0" and "count \<noteq> 0"
    and "\<forall>t\<in>set (spec_target_dates self). valid_date t"
  shows "get_related_week_objects weeks self
     = Inr (map (\<lambda>k. get_related_obj weeks (date self + 7 * rate * k)) [1..count]
            @ [get_related_obj weeks (date self)])"
proof -
  have v: "valid_date (date self)" "\<forall>k\<in>set [1..count]. valid_date (date self + 7 * rate * k)"
    using assms by (simp_all add: spec_target_dates_def)
  show ?thesis
    using assms(1-4) repeat_loop_valid [OF v, of weeks "[]"]
    by (simp add: get_related_week_objects_def truthy_def)
qed

lemma week_objects_of_target_dates:
  assumes "\<forall>t\<in>set (spec_target_dates self). valid_date t"
  shows "\<exists>ws. get_related_week_objects weeks self = Inr ws
           \<and> set ws = get_related_obj weeks ` set (spec_target_dates self)"
proof (cases "truthy (repetition_rate self) \<and> truthy (repetition_count self)")
  case True
  then obtain rate count where rc: "repetition_rate self = Some rate" "repetition_count self = Some count"
    "rate \<noteq> 0" "count \<noteq> 0"
    by (auto simp add: truthy_iff)
  show ?thesis
    using week_objects_with_repetition [OF rc assms, of weeks] rc
    by (auto simp add: spec_target_dates_def)
next
  case False
  have "get_related_obj weeks ` set (spec_target_dates self) = {get_related_obj weeks (date self)}"
  proof (cases "repetition_rate self")
    case None
    then show ?thesis by (simp add: spec_target_dates_def)
  next
    case (Some rate)
    note r = this
    show ?thesis
    proof (cases "repetition_count self")
      case None
      then show ?thesis by (simp add: spec_target_dates_def r)
    next
      case (Some count)
      with r False have "rate = 0 \<or> count = 0" by (simp add: truthy_def)
      then show ?thesis
        using r Some by (auto simp add: spec_target_dates_def)
    qed
  qed
  then show ?thesis
    using week_objects_without_repetition [OF False, of weeks] by simp
qed

lemma get_related_obj_None:
  "get_related_obj weeks t = None \<longleftrightarrow> \<not> (\<exists>w\<in>set weeks. start w \<le> t \<and> t \<le> end_date w)"
  by (simp add: get_related_obj_def find_eq_None_Bex)

lemma get_related_obj_Some:
  "get_related_obj weeks t = Some w \<Longrightarrow> w \<in> set weeks \<and> start w \<le> t \<and> t \<le> end_date w"
  by (auto simp add: get_related_obj_def find_Some_iff)

text \<open>
  Claim C2, as amended. Provided that every target date is a date of the library (not
  after 9999-12-31), the week objects that the checks go through are exactly the results
  of the lookup by inclusive containment (\<open>start \<le> d \<le> end\<close>) for the base date and, when
  both repetition fields are set, for \<open>date + 7 * repetition_rate * k\<close> with \<open>k\<close> from 1 to
  \<open>repetition_count\<close>; without repetition the base date alone is looked up; and the
  existence check fails with \<open>NoSuchWeek\<close> if and only if some target date has no
  enclosing Week.
\<close>

theorem target_weeks_checked:
  assumes "\<forall>t\<in>set (spec_target_dates self). valid_date t"
  shows "(\<exists>ws. get_related_week_objects weeks self = Inr ws
            \<and> set ws = get_related_obj weeks ` set (spec_target_dates self))
    \<and> (\<forall>rate count. repetition_rate self = Some rate \<and> repetition_count self = Some count
            \<and> rate \<noteq> 0 \<and> count \<noteq> 0 \<longrightarrow>
          get_related_week_objects weeks self
            = Inr (map (\<lambda>k. get_related_obj weeks (date self + 7 * rate * k)) [1..count]
                   @ [get_related_obj weeks (date self)]))
    \<and> (repetition_rate self = None \<or> repetition_count self = None \<longrightarrow>
          get_related_week_objects weeks self = Inr [get_related_obj weeks (date self)])
    \<and> (\<forall>t w. get_related_obj weeks t = Some w \<longrightarrow>
          w \<in> set weeks \<and> start w \<le> t \<and> t \<le> end_date w)
    \<and> (\<forall>t. get_related_obj weeks t = None \<longleftrightarrow>
          \<not> (\<exists>w\<in>set weeks. start w \<le> t \<and> t \<le> end_date w))
    \<and> (validate_exist_weeks weeks self = Inl NoSuchWeek \<longleftrightarrow>
          (\<exists>t\<in>set (spec_target_dates self). \<not> (\<exists>w\<in>set weeks. start w \<le> t \<and> t \<le> end_date w)))
    \<and> (validate_exist_weeks weeks self = Inr () \<longleftrightarrow>
          \<not> (\<exists>t\<in>set (spec_target_dates self). \<not> (\<exists>w\<in>set weeks. start w \<le> t \<and> t \<le> end_date w)))"
proof -
  obtain ws where ws: "get_related_week_objects weeks self = Inr ws"
    "set ws = get_related_obj weeks ` set (spec_target_dates self)"
    using week_objects_of_target_dates [OF assms] by blast
  have a: "\<exists>ws. get_related_week_objects weeks self = Inr ws
            \<and> set ws = get_related_obj weeks ` set (spec_target_dates self)"
    using ws by blast
  have b: "\<forall>rate count. repetition_rate self = Some rate \<and> repetition_count self = Some count
            \<and> rate \<noteq> 0 \<and> count \<noteq> 0 \<longrightarrow>
          get_related_week_objects weeks self
            = Inr (map (\<lambda>k. get_related_obj weeks (date self + 7 * rate * k)) [1..count]
                   @ [get_related_obj weeks (date self)])"
    using week_objects_with_repetition [OF _ _ _ _ assms] by blast
  have c: "repetition_rate self = None \<or> repetition_count self = None \<longrightarrow>
          get_related_week_objects weeks self = Inr [get_related_obj weeks (date self)]"
    using week_objects_without_repetition [of self weeks] by (auto simp add: truthy_def)
  have d: "\<forall>t w. get_related_obj weeks t = Some w \<longrightarrow>
          w \<in> set weeks \<and> start w \<le> t \<and> t \<le> end_date w"
    using get_related_obj_Some by blast
  have e: "\<forall>t. get_related_obj weeks t = None \<longleftrightarrow>
          \<not> (\<exists>w\<in>set weeks. start w \<le> t \<and> t \<le> end_date w)"
    using get_related_obj_None by blast
  have n: "None \<in> set ws \<longleftrightarrow>
      (\<exists>t\<in>set (spec_target_dates self). \<not> (\<exists>w\<in>set weeks. start w \<le> t \<and> t \<le> end_date w))"
    unfolding ws(2) using get_related_obj_None [of weeks] by (metis (no_types, lifting) image_iff)
  have f: "validate_exist_weeks weeks self = Inl NoSuchWeek \<longleftrightarrow>
          (\<exists>t\<in>set (spec_target_dates self). \<not> (\<exists>w\<in>set weeks. start w \<le> t \<and> t \<le> end_date w))"
    using n by (simp add: validate_exist_weeks_def ws(1))
  have g: "validate_exist_weeks weeks self = Inr () \<longleftrightarrow>
          \<not> (\<exists>t\<in>set (spec_target_dates self). \<not> (\<exists>w\<in>set weeks. start w \<le> t \<and> t \<le> end_date w))"
    using n by (simp add: validate_exist_weeks_def ws(1))
  from a b c d e f g show ?thesis by (intro conjI)
qed

text \<open>
  The claim as written fails on the code. For a Schedule on Saturday 9999-12-25 that is
  repeated once after one week, the base date has its Week, the repeated date has no
  enclosing Week, and the check does not fail with \<open>NoSuchWeek\<close>: the addition of the
  repetition leaves the range of dates, and the \<^verbatim>\<open>OverflowError\<close> of the library is not
  caught.
\<close>

theorem target_weeks_overflow_counterexample:
  "valid_date (date new_saturday_9999)
   \<and> get_related_obj [week_9999] (date new_saturday_9999) = Some week_9999
   \<and> (\<exists>t\<in>set (spec_target_dates new_saturday_9999). get_related_obj [week_9999] t = None)
   \<and> validate_exist_weeks [week_9999] new_saturday_9999 = Inl OverflowError
   \<and> validate_exist_weeks [week_9999] new_saturday_9999 \<noteq> Inl NoSuchWeek"
  by (simp add: new_saturday_9999_def week_9999_def valid_date_def MINORDINAL_def MAXORDINAL_def
      get_related_obj_def spec_target_dates_def validate_exist_weeks_def
      get_related_week_objects_def truthy_def date_add_def timedelta_def)

text \<open>
  The witness is the example of the specification: a Schedule on Monday 2024-01-01 with
  rate 1 and count 2 needs the Weeks of 2024-01-01, 2024-01-08 and 2024-01-15; with the
  first two Weeks alone the check fails with \<open>NoSuchWeek\<close>. A Schedule without repetition
  needs the Week of its date only.
\<close>

theorem target_weeks_checked_witness:
  "validate_exist_weeks [week_1, week_2] new_monday_repeated = Inl NoSuchWeek
   \<and> validate_exist_weeks [week_1] new_monday = Inr ()"
proof -
  have v1: "\<forall>t\<in>set (spec_target_dates new_monday_repeated). valid_date t"
    by (simp add: spec_target_dates_def new_monday_repeated_def valid_date_def MINORDINAL_def MAXORDINAL_def)
  have v2: "\<forall>t\<in>set (spec_target_dates new_monday). valid_date t"
    by (simp add: spec_target_dates_def new_monday_def valid_date_def MINORDINAL_def MAXORDINAL_def)
  note f = target_weeks_checked [OF v1, of "[week_1, week_2]", THEN conjunct2, THEN conjunct2,
      THEN conjunct2, THEN conjunct2, THEN conjunct2, THEN conjunct1]
  note g = target_weeks_checked [OF v2, of "[week_1]", THEN conjunct2, THEN conjunct2,
      THEN conjunct2, THEN conjunct2, THEN conjunct2, THEN conjunct2]
  have u: "[1..(2::int)] = [1, 2]"
    by (simp add: upto_rec1)
  have a: "validate_exist_weeks [week_1, week_2] new_monday_repeated = Inl NoSuchWeek"
    unfolding f by (simp add: spec_target_dates_def new_monday_repeated_def week_1_def week_2_def u
        del: set_upto)
  have b: "validate_exist_weeks [week_1] new_monday = Inr ()"
    unfolding g by (simp add: spec_target_dates_def new_monday_def week_1_def)
  from a b show ?thesis by simp
qed

section \<open>Collisions of Schedules\<close>




text \<open>
  Claim C1. The conflict check has to fail exactly when a target week holds a Schedule of
  the same author on the weekday of the candidate that is another record than the one
  under validation, the two being told apart by their primary keys; a Schedule of a
  different author never triggers the error. The code does not exempt the record under
  validation: it exempts the row that the lookup by the candidate's date and author
  returns. The evaluation below shows the check at inputs where the two differ. A new
  Schedule (no primary key) on the very date of a stored Schedule of the same author
  collides with it in the words of the specification, and the check returns no error. The
  stored Schedule of 2024-01-08, edited to 2024-01-01 with one repetition after a week,
  collides with no other record, and the check fails with \<open>ScheduleCollision\<close> on its own
  stored row. For a Schedule of a different author the check returns no error, as the
  claim says.
\<close>

theorem exempted_row_is_not_the_candidate:
  "get_related_week_objects [week_1, week_2] new_monday = Inr [Some week_1]
   \<and> spec_collides [stored_monday] [Some week_1] new_monday
   \<and> validate_exist_schedule [stored_monday] [week_1, week_2] new_monday = Inr ()
   \<and> get_related_week_objects [week_1, week_2] edited_second_monday = Inr [Some week_2, Some week_1]
   \<and> \<not> spec_collides [stored_second_monday] [Some week_2, Some week_1] edited_second_monday
   \<and> validate_exist_schedule [stored_second_monday] [week_1, week_2] edited_second_monday
       = Inl ScheduleCollision
   \<and> validate_exist_schedule [other_author_monday] [week_1, week_2] new_monday = Inr ()"
  by (simp add: get_related_week_objects_def new_monday_def truthy_def get_related_obj_def
        week_1_def week_2_def date_add_def timedelta_def MAXORDINAL_def spec_collides_def
        stored_monday_def edited_second_monday_def stored_second_monday_def
        other_author_monday_def
        validate_exist_schedule_def current_schedule_of_def weekday_def model_ne_def)

section \<open>Validating a stored Schedule again\<close>






section \<open>The Schedule of an update or a delete\<close>

lemma date_ctor_error: "date_ctor y m d = Inl e \<Longrightarrow> e = ValueError"
  by (simp add: date_ctor_def split: if_splits)

lemma strptime_error: "strptime_ymd s = Inl e \<Longrightarrow> e = ValueError"
  unfolding strptime_ymd_def
  by (auto split: list.splits if_splits option.splits) (erule date_ctor_error)

lemma digit_char_values:
  "digit_char 0 = CHR ''0''" "digit_char 1 = CHR ''1''" "digit_char 2 = CHR ''2''"
  "digit_char 3 = CHR ''3''" "digit_char 4 = CHR ''4''" "digit_char 5 = CHR ''5''"
  "digit_char 6 = CHR ''6''" "digit_char 7 = CHR ''7''" "digit_char 8 = CHR ''8''"
  "digit_char 9 = CHR ''9''"
  by (simp_all add: digit_char_def)

lemma below_ten_cases: "0 \<le> (k::int) \<Longrightarrow> k < 10 \<Longrightarrow> k \<in> {0, 1, 2, 3, 4, 5, 6, 7, 8, 9}"
  by (simp only: insert_iff empty_iff simp_thms) arith

lemma digit_char_digit:
  assumes "0 \<le> n" and "n < 10"
  shows "is_digit (digit_char n)" and "digit (digit_char n) = n"
  using below_ten_cases [OF assms]
  by (auto simp add: digit_char_values is_digit_def digit_def)

lemma year_digits:
  fixes y :: int
  assumes "0 \<le> y" and "y \<le> 9999"
  shows "0 \<le> y div 1000" "y div 1000 < 10" "0 \<le> y div 100 mod 10" "y div 100 mod 10 < 10"
    "0 \<le> y div 10 mod 10" "y div 10 mod 10 < 10" "0 \<le> y mod 10" "y mod 10 < 10"
  using assms by simp_all

lemma year_value:
  fixes y :: int
  shows "1000 * (y div 1000) + 100 * (y div 100 mod 10) + 10 * (y div 10 mod 10) + y mod 10 = y"
proof -
  have a: "y div 100 = y div 10 div 10" "y div 1000 = y div 10 div 10 div 10"
    by (simp_all add: zdiv_zmult2_eq)
  have b: "y = 10 * (y div 10) + y mod 10"
    "y div 10 = 10 * (y div 10 div 10) + y div 10 mod 10"
    "y div 10 div 10 = 10 * (y div 10 div 10 div 10) + y div 10 div 10 mod 10"
    by simp_all
  show ?thesis
    unfolding a using b by linarith
qed

lemma match_m_canonical:
  assumes "1 \<le> m" and "m \<le> 12"
  shows "match_m (digit_char (m div 10) # digit_char (m mod 10) # rest) = Some (m, rest)"
proof -
  have "m = 1 \<or> m = 2 \<or> m = 3 \<or> m = 4 \<or> m = 5 \<or> m = 6 \<or> m = 7 \<or> m = 8 \<or> m = 9
      \<or> m = 10 \<or> m = 11 \<or> m = 12"
    using assms by arith
  then show ?thesis
    by (elim disjE)
      (simp_all add: digit_char_values is_nonzero_digit_def is_digit_def digit_def)
qed

lemma match_d_canonical:
  assumes "1 \<le> d" and "d \<le> 31"
  shows "match_d [digit_char (d div 10), digit_char (d mod 10)] = Some (d, [])"
proof -
  have "d = 1 \<or> d = 2 \<or> d = 3 \<or> d = 4 \<or> d = 5 \<or> d = 6 \<or> d = 7
      \<or> d = 8 \<or> d = 9 \<or> d = 10 \<or> d = 11 \<or> d = 12 \<or> d = 13
      \<or> d = 14 \<or> d = 15 \<or> d = 16 \<or> d = 17 \<or> d = 18 \<or> d = 19
      \<or> d = 20 \<or> d = 21 \<or> d = 22 \<or> d = 23 \<or> d = 24 \<or> d = 25
      \<or> d = 26 \<or> d = 27 \<or> d = 28 \<or> d = 29 \<or> d = 30 \<or> d = 31"
    using assms by arith
  then show ?thesis
    by (elim disjE)
      (simp_all add: digit_char_values is_nonzero_digit_def is_digit_def digit_def)
qed

lemma strptime_canonical:
  assumes "0 \<le> y" and "y \<le> 9999" and "1 \<le> m" and "m \<le> 12" and "1 \<le> d" and "d \<le> 31"
  shows "strptime_ymd (format_ymd y m d) = date_ctor y m d"
proof -
  note r = year_digits [OF assms(1,2)]
  have dg: "is_digit (digit_char (y div 1000))" "is_digit (digit_char (y div 100 mod 10))"
    "is_digit (digit_char (y div 10 mod 10))" "is_digit (digit_char (y mod 10))"
    using r by (simp_all only: digit_char_digit)
  have dv: "digit (digit_char (y div 1000)) = y div 1000"
    "digit (digit_char (y div 100 mod 10)) = y div 100 mod 10"
    "digit (digit_char (y div 10 mod 10)) = y div 10 mod 10"
    "digit (digit_char (y mod 10)) = y mod 10"
    using r by (simp_all only: digit_char_digit)
  have mm: "match_m (digit_char (m div 10) # digit_char (m mod 10) # CHR ''-''
        # [digit_char (d div 10), digit_char (d mod 10)])
      = Some (m, CHR ''-'' # [digit_char (d div 10), digit_char (d mod 10)])"
    by (rule match_m_canonical [OF assms(3,4)])
  note md = match_d_canonical [OF assms(5,6)]
  show ?thesis
    unfolding format_ymd_def strptime_ymd_def
    by (simp only: list.case dg dv mm md year_value option.case prod.case if_True if_False simp_thms
        list.distinct)
qed

lemma get_object_or_404_NotFound:
  "get_object_or_404 xs = Inl NotFound \<longleftrightarrow> xs = []"
  by (simp add: get_object_or_404_def split: list.splits)

lemma get_object_or_404_found:
  "get_object_or_404 xs = Inr t \<longleftrightarrow> xs = [t]"
  by (auto simp add: get_object_or_404_def split: list.splits)

text \<open>
  Claim C4, as amended. \<^verbatim>\<open>get_object\<close> parses the date segment with \<^verbatim>\<open>strptime\<close> and the format
  \<^verbatim>\<open>%Y-%m-%d\<close>. When the segment parses to a date, the record is looked up by that date and
  the requesting user: the result is \<open>NotFound\<close> exactly when no Schedule has that date and
  that author (a Schedule of that date that belongs to another author does not count), and
  a record that is returned is a stored one with that date and that author. When the
  segment does not parse, the \<^verbatim>\<open>ValueError\<close> of \<^verbatim>\<open>strptime\<close> leaves \<^verbatim>\<open>get_object\<close> uncaught. A
  segment in the canonical form \<^verbatim>\<open>YYYY-MM-DD\<close> parses to the date of its year, month and day,
  or to \<^verbatim>\<open>ValueError\<close> when there is no such date.
\<close>

theorem get_object_resolution:
  "(\<forall>e. strptime_ymd s = Inl e \<longrightarrow>
        e = ValueError \<and> get_object objects user (Some s) = Inl ValueError)
   \<and> (\<forall>d. strptime_ymd s = Inr d \<longrightarrow>
        (get_object objects user (Some s) = Inl NotFound \<longleftrightarrow>
           \<not> (\<exists>t\<in>set objects. date t = d \<and> author t = user)))
   \<and> (\<forall>d t. strptime_ymd s = Inr d \<and> get_object objects user (Some s) = Inr t \<longrightarrow>
        t \<in> set objects \<and> date t = d \<and> author t = user)
   \<and> (\<forall>d t. strptime_ymd s = Inr d \<longrightarrow>
        (get_object objects user (Some s) = Inr t \<longleftrightarrow>
           filter (\<lambda>x. date x = d \<and> author x = user) objects = [t]))
   \<and> (\<forall>y m d. 0 \<le> y \<and> y \<le> 9999 \<and> 1 \<le> m \<and> m \<le> 12 \<and> 1 \<le> d \<and> d \<le> 31 \<longrightarrow>
        strptime_ymd (format_ymd y m d) = date_ctor y m d)"
proof -
  have a: "\<forall>e. strptime_ymd s = Inl e \<longrightarrow>
        e = ValueError \<and> get_object objects user (Some s) = Inl ValueError"
    using strptime_error [of s] by (auto simp add: get_object_def)
  have b: "\<forall>d. strptime_ymd s = Inr d \<longrightarrow>
        (get_object objects user (Some s) = Inl NotFound \<longleftrightarrow>
           \<not> (\<exists>t\<in>set objects. date t = d \<and> author t = user))"
    by (auto simp add: get_object_def get_object_or_404_NotFound filter_empty_conv)
  have d: "\<forall>d t. strptime_ymd s = Inr d \<longrightarrow>
        (get_object objects user (Some s) = Inr t \<longleftrightarrow>
           filter (\<lambda>x. date x = d \<and> author x = user) objects = [t])"
    by (simp add: get_object_def get_object_or_404_found)
  have c: "\<forall>d t. strptime_ymd s = Inr d \<and> get_object objects user (Some s) = Inr t \<longrightarrow>
        t \<in> set objects \<and> date t = d \<and> author t = user"
  proof (intro allI impI)
    fix d t
    assume h: "strptime_ymd s = Inr d \<and> get_object objects user (Some s) = Inr t"
    with d have "filter (\<lambda>x. date x = d \<and> author x = user) objects = [t]" by blast
    then have "t \<in> set (filter (\<lambda>x. date x = d \<and> author x = user) objects)" by simp
    then show "t \<in> set objects \<and> date t = d \<and> author t = user" by simp
  qed
  have e: "\<forall>y m d. 0 \<le> y \<and> y \<le> 9999 \<and> 1 \<le> m \<and> m \<le> 12 \<and> 1 \<le> d \<and> d \<le> 31 \<longrightarrow>
        strptime_ymd (format_ymd y m d) = date_ctor y m d"
    using strptime_canonical by blast
  from a b c d e show ?thesis by (intro conjI)
qed

lemma parse_2024_01_01: "strptime_ymd ''2024-01-01'' = Inr 738886"
  by (simp add: strptime_ymd_def is_digit_def digit_def is_nonzero_digit_def date_ctor_def
      days_in_month_def ymd2ord_def days_before_year_def days_before_month_def is_leap_def)

text \<open>
  The witness: for the segment \<^verbatim>\<open>2024-01-01\<close> and user 1 the stored Monday of user 1 is
  returned although a Schedule of user 2 on that day comes first in the table; when user 1
  has a Schedule on another day only, the result is \<open>NotFound\<close>.
\<close>

theorem get_object_resolution_witness:
  "get_object [other_author_monday, stored_monday] 1 (Some ''2024-01-01'') = Inr stored_monday
   \<and> get_object [other_author_monday, stored_second_monday] 1 (Some ''2024-01-01'') = Inl NotFound"
  using get_object_resolution [of "''2024-01-01''" "[other_author_monday, stored_monday]" 1,
        THEN conjunct2, THEN conjunct2, THEN conjunct2, THEN conjunct1]
    get_object_resolution [of "''2024-01-01''" "[other_author_monday, stored_second_monday]" 1,
        THEN conjunct2, THEN conjunct1]
  by (simp add: parse_2024_01_01 other_author_monday_def stored_monday_def stored_second_monday_def)

text \<open>
  The claim as written fails on the code. The segments \<^verbatim>\<open>2024-13-01\<close> and \<^verbatim>\<open>monday\<close> end in
  \<^verbatim>\<open>ValueError\<close>, which is neither a not-found nor a bad-request condition; and the parse is
  not strict about the padding: \<^verbatim>\<open>2024-1-1\<close> resolves the Schedule of 2024-01-01.
\<close>

theorem malformed_date_counterexample:
  "get_object [stored_monday] 1 (Some ''2024-13-01'') = Inl ValueError
   \<and> get_object [stored_monday] 1 (Some ''monday'') = Inl ValueError
   \<and> get_object [stored_monday] 1 (Some ''2024-1-1'') = Inr stored_monday"
  by (simp add: get_object_def get_object_or_404_def stored_monday_def
      strptime_ymd_def is_digit_def digit_def is_nonzero_digit_def date_ctor_def
      days_in_month_def ymd2ord_def days_before_year_def days_before_month_def is_leap_def)

end
